theory Spec2Isabelle
  imports Main "HOL-Library.Sublist" "HOL-Library.AList"
begin

section \<open>Python strings and \<open>os.path\<close> (POSIX flavour)\<close>

text \<open>
  Python \<open>str\<close> values are modelled as \<open>string\<close>. The separator and every literal the
  driver searches for are ASCII, so containment and splitting on the UTF-8 bytes agree
  with Python's behaviour on code points.
\<close>

text \<open>\<open>sub in s\<close> for two strings: \<open>sub\<close> occurs as a contiguous run inside \<open>s\<close>.\<close>

fun str_contains :: "string \<Rightarrow> string \<Rightarrow> bool" where
  "str_contains sub [] = (sub = [])"
| "str_contains sub (c # cs) = (prefix sub (c # cs) \<or> str_contains sub cs)"

text \<open>\<open>sep.join(xs)\<close>.\<close>

fun str_join :: "string \<Rightarrow> string list \<Rightarrow> string" where
  "str_join sep [] = []"
| "str_join sep [x] = x"
| "str_join sep (x # y # ys) = x @ sep @ str_join sep (y # ys)"

text \<open>\<open>s.split(sep)\<close> with a one-character separator: every separator cuts, empty pieces are kept.\<close>

fun str_split :: "char \<Rightarrow> string \<Rightarrow> string list" where
  "str_split sep [] = [[]]"
| "str_split sep (c # cs) =
     (if c = sep then [] # str_split sep cs
      else (case str_split sep cs of
              [] \<Rightarrow> [[c]]
            | x # xs \<Rightarrow> (c # x) # xs))"

text \<open>\<open>str(n)\<close> for a Python integer: decimal digits, a leading minus sign when negative.\<close>

definition digit_char :: "nat \<Rightarrow> char" where
  "digit_char d = char_of (48 + d)"

fun str_of_nat :: "nat \<Rightarrow> string" where
  "str_of_nat n = (if n < 10 then [digit_char n] else str_of_nat (n div 10) @ [digit_char (n mod 10)])"

definition str_of_int :: "int \<Rightarrow> string" where
  "str_of_int i = (if i < 0 then CHR ''-'' # str_of_nat (nat (- i)) else str_of_nat (nat i))"

subsection \<open>Reading a byte stream as text\<close>

text \<open>
  A text is held as its UTF-8 bytes, so decoding a byte string with \<open>encoding="utf-8"\<close>
  and strict error handling succeeds exactly on the well-formed byte sequences and then
  leaves the bytes as they are. Well-formed means: one byte \<open>00..7F\<close>; or a lead byte
  \<open>C2..DF\<close>, \<open>E0..EF\<close> or \<open>F0..F4\<close> followed by one, two or three continuation bytes
  \<open>80..BF\<close>, where the first continuation byte is further restricted after \<open>E0\<close>,
  \<open>ED\<close>, \<open>F0\<close> and \<open>F4\<close> (no overlong forms, no surrogates, nothing above U+10FFFF).
\<close>

definition byte_in :: "nat \<Rightarrow> nat \<Rightarrow> char \<Rightarrow> bool" where
  "byte_in lo hi c = (lo \<le> of_char c \<and> of_char c \<le> hi)"

fun utf8_valid :: "string \<Rightarrow> bool" where
  "utf8_valid [] = True"
| "utf8_valid (a # r) =
     (if byte_in 0x00 0x7F a then utf8_valid r
      else if byte_in 0xC2 0xDF a then
        (case r of
           b # r' \<Rightarrow> byte_in 0x80 0xBF b \<and> utf8_valid r'
         | _ \<Rightarrow> False)
      else if byte_in 0xE0 0xEF a then
        (case r of
           b # c # r' \<Rightarrow>
             (if a = CHR 0xE0 then byte_in 0xA0 0xBF b
              else if a = CHR 0xED then byte_in 0x80 0x9F b
              else byte_in 0x80 0xBF b)
             \<and> byte_in 0x80 0xBF c \<and> utf8_valid r'
         | _ \<Rightarrow> False)
      else if byte_in 0xF0 0xF4 a then
        (case r of
           b # c # d # r' \<Rightarrow>
             (if a = CHR 0xF0 then byte_in 0x90 0xBF b
              else if a = CHR 0xF4 then byte_in 0x80 0x8F b
              else byte_in 0x80 0xBF b)
             \<and> byte_in 0x80 0xBF c \<and> byte_in 0x80 0xBF d \<and> utf8_valid r'
         | _ \<Rightarrow> False)
      else False)"

text \<open>
  Universal newlines, as a text stream opened with the default \<open>newline=None\<close> applies
  them on reading: \<open>\r\n\<close> and a lone \<open>\r\<close> both become \<open>\n\<close>.
\<close>

fun universal_newlines :: "string \<Rightarrow> string" where
  "universal_newlines [] = []"
| "universal_newlines (c # r) =
     (if c = CHR 0x0D then
        (case r of
           [] \<Rightarrow> [CHR 0x0A]
         | d # r' \<Rightarrow>
             (if d = CHR 0x0A then CHR 0x0A # universal_newlines r'
              else CHR 0x0A # universal_newlines r))
      else c # universal_newlines r)"

subsection \<open>\<open>posixpath\<close>\<close>

definition sep :: char where
  "sep = CHR ''/''"

text \<open>\<open>posixpath.isabs\<close>: the path starts with the separator.\<close>

definition isabs :: "string \<Rightarrow> bool" where
  "isabs p = (case p of [] \<Rightarrow> False | c # _ \<Rightarrow> c = sep)"

definition endswith_sep :: "string \<Rightarrow> bool" where
  "endswith_sep p = (p \<noteq> [] \<and> last p = sep)"

text \<open>
  \<open>posixpath.join(a, b)\<close> with one tail component: an absolute \<open>b\<close> replaces the path,
  otherwise \<open>b\<close> is appended, with a separator unless \<open>a\<close> is empty or ends with one.
\<close>

definition path_join :: "string \<Rightarrow> string \<Rightarrow> string" where
  "path_join a b =
     (if isabs b then b
      else if a = [] \<or> endswith_sep a then a @ b
      else a @ [sep] @ b)"

text \<open>
  \<open>posixpath.split(p)\<close>: cut after the last separator; trailing separators are stripped
  from the head unless the head consists of separators only.
\<close>

definition rstrip_sep :: "string \<Rightarrow> string" where
  "rstrip_sep p = rev (dropWhile (\<lambda>c. c = sep) (rev p))"

definition path_split :: "string \<Rightarrow> string \<times> string" where
  "path_split p =
     (let tail = rev (takeWhile (\<lambda>c. c \<noteq> sep) (rev p));
          i = length p - length tail;
          head = take i p;
          head' = (if head \<noteq> [] \<and> head \<noteq> replicate (length head) sep
                   then rstrip_sep head else head)
      in (head', tail))"

text \<open>
  \<open>posixpath.normpath(path)\<close>. \<open>initial_slashes\<close> is 0, 1 or 2 (exactly two leading
  separators are kept, three or more collapse to one); the loop over the components
  drops empty and \<open>.\<close> components and resolves \<open>..\<close> against the component before it.
\<close>

definition initial_slashes :: "string \<Rightarrow> nat" where
  "initial_slashes p =
     (if \<not> isabs p then 0
      else if prefix [sep, sep] p \<and> \<not> prefix [sep, sep, sep] p then 2
      else 1)"

definition normpath_step :: "nat \<Rightarrow> string list \<Rightarrow> string \<Rightarrow> string list" where
  "normpath_step slashes new_comps c =
     (if c = [] \<or> c = ''.'' then new_comps
      else if c \<noteq> ''..'' \<or> (slashes = 0 \<and> new_comps = [])
                \<or> (new_comps \<noteq> [] \<and> last new_comps = ''..'')
           then new_comps @ [c]
      else if new_comps \<noteq> [] then butlast new_comps
      else new_comps)"

definition normpath :: "string \<Rightarrow> string" where
  "normpath p =
     (if p = [] then ''.''
      else
        let slashes = initial_slashes p;
            comps = foldl (normpath_step slashes) [] (str_split sep p);
            q = replicate slashes sep @ str_join [sep] comps
        in if q = [] then ''.'' else q)"

text \<open>\<open>posixpath.abspath(path)\<close>, with the working directory \<open>os.getcwd()\<close> passed in.\<close>

definition abspath :: "string \<Rightarrow> string \<Rightarrow> string" where
  "abspath cwd p = normpath (if isabs p then p else path_join cwd p)"

text \<open>\<open>s.upper()\<close> on ASCII letters (instruction-set values are ASCII identifiers).\<close>

definition upper_char :: "char \<Rightarrow> char" where
  "upper_char c =
     (let n = (of_char c :: nat)
      in if 97 \<le> n \<and> n \<le> 122 then char_of (n - 32) else c)"

definition str_upper :: "string \<Rightarrow> string" where
  "str_upper s = map upper_char s"

section \<open>Data model\<close>

text \<open>
  A member of a Python \<open>Enum\<close> (\<open>InstructionSet\<close>, \<open>BitWidth\<close>, the binary file type):
  an object with an identity, a \<open>name\<close> and a \<open>value\<close>. The enum classes themselves live
  outside the modelled module, so a member is identified by what the driver reads from it.
  \<open>a is b\<close> compares identities; two objects with the same name and value but different
  identities are equal in content and still distinct objects.
\<close>

record py_enum =
  obj_id :: nat
  enum_name :: string
  enum_value :: string

definition py_is :: "py_enum \<Rightarrow> py_enum \<Rightarrow> bool" where
  "py_is a b = (obj_id a = obj_id b)"

definition same_content :: "py_enum \<Rightarrow> py_enum \<Rightarrow> bool" where
  "same_content a b = (enum_name a = enum_name b \<and> enum_value a = enum_value b)"

record ArchInfo =
  isa :: py_enum
  bit_width :: py_enum

record ToolchainConfig =
  file_format :: py_enum
  userspace_dynamic_linker :: "string option"
  relocatable :: bool
  separate_data_sections :: bool
  create_map_files :: bool

record AbstractBinaryFileParser =
  parser_id :: nat
  parser_file_format :: py_enum

text \<open>
  Exceptions as values. \<open>ValueError\<close> and \<open>NotImplementedError\<close> are the two the driver
  raises itself; \<open>CalledProcessError\<close> (with the return code), \<open>UnicodeDecodeError\<close> and
  \<open>OSError\<close> are what \<open>subprocess.run\<close> raises; \<open>ExternalError\<close> stands for whatever a
  back-end hook or the configuration store raises.
\<close>

datatype error =
    ValueError string
  | NotImplementedError string
  | CalledProcessError int
  | UnicodeDecodeError
  | OSError
  | ExternalError string

text \<open>
  What a concrete back end supplies for the abstract members of the class. The two
  target hooks run at the end of construction and may raise.
\<close>

record backend =
  name :: string
  get_assembler_target :: "ToolchainConfig \<Rightarrow> ArchInfo \<Rightarrow> error + string"
  get_compiler_target :: "ToolchainConfig \<Rightarrow> ArchInfo \<Rightarrow> error + string option"
  linker_script_flag :: string
  get_linker_map_flag :: "string \<Rightarrow> string list"
  segment_alignment :: int

text \<open>The attributes of a constructed instance.\<close>

record Toolchain =
  hooks :: backend
  processor :: ArchInfo
  tc_file_format :: py_enum
  parser :: AbstractBinaryFileParser
  preprocessor_flags :: "string list"
  compiler_flags :: "string list"
  assembler_flags :: "string list"
  linker_flags :: "string list"
  config :: ToolchainConfig
  linker_keep_list :: "string list"
  linker_discard_list :: "string list"
  assembler_target :: string
  compiler_target :: "string option"

subsection \<open>The process, its environment and the outside world\<close>

text \<open>
  A Python \<open>dict\<close> from \<open>str\<close> to \<open>str\<close>: an association list with distinct keys in
  insertion order. \<open>d.update(e)\<close> overwrites the value of a key that is present and
  appends a key that is new.
\<close>

type_synonym dict = "(string \<times> string) list"

definition dict_update :: "dict \<Rightarrow> dict \<Rightarrow> dict" where
  "dict_update d e = fold (\<lambda>(k, v). AList.update k v) e d"

datatype log_record = LogText string | LogEnv dict

text \<open>
  The state the driver can touch: dict objects in a store addressed by index (so that
  copying and in-place update are distinguishable), the address of \<open>os.environ\<close>, the
  working directory, what was logged, and every call of \<open>subprocess.run\<close>, with the
  argument vector and the environment handed to it.
\<close>

record world =
  heap :: "dict list"
  os_environ :: nat
  cwd :: string
  logged :: "log_record list"
  spawned :: "(string list \<times> dict) list"

text \<open>
  What a child process does: it cannot be started at all (no such file, no permission),
  or it runs, writes some bytes to its standard output and exits with a status.
\<close>

datatype process_outcome = NotStarted | Exited int string

text \<open>
  What lies outside the module: the repository configuration store (section and key to
  value, or an error when the entry is missing) and the behaviour of a child process,
  which may depend on its argument vector, its environment and the calls made before.
\<close>

record externals =
  get_repository_config :: "string \<Rightarrow> string \<Rightarrow> error + string"
  process_exit :: "(string list \<times> dict) list \<Rightarrow> string list \<Rightarrow> dict \<Rightarrow> process_outcome"

definition logger_info :: "log_record \<Rightarrow> world \<Rightarrow> world" where
  "logger_info m w = w\<lparr>logged := logged w @ [m]\<rparr>"

text \<open>\<open>d.copy()\<close>: a new object holding the same items.\<close>

definition dict_copy :: "nat \<Rightarrow> world \<Rightarrow> nat \<times> world" where
  "dict_copy a w = (length (heap w), w\<lparr>heap := heap w @ [heap w ! a]\<rparr>)"

text \<open>\<open>d.update(e)\<close> on the object at address \<open>a\<close>, in place.\<close>

definition dict_update_obj :: "nat \<Rightarrow> dict \<Rightarrow> world \<Rightarrow> world" where
  "dict_update_obj a e w = w\<lparr>heap := (heap w)[a := dict_update (heap w ! a) e]\<rparr>"

text \<open>
  Reading the pipe of the child through the text layer that \<open>encoding="utf-8"\<close> puts on
  it: strict decoding, then universal newlines.
\<close>

definition read_text :: "string \<Rightarrow> error + string" where
  "read_text raw = (if utf8_valid raw then Inr (universal_newlines raw) else Inl UnicodeDecodeError)"

text \<open>
  \<open>subprocess.run(args, stdout=PIPE, encoding="utf-8", check=True[, env=...])\<close>: the
  child runs in the given environment object, or in the ambient one when none is given.
  Starting it may fail with \<open>OSError\<close>. Its output is read as text to the end before the
  exit status is looked at, so output that does not decode raises \<open>UnicodeDecodeError\<close>
  whatever the status. Then, with \<open>check=True\<close>, a non-zero status raises
  \<open>CalledProcessError\<close>, and a zero status yields the captured text.
\<close>

definition subprocess_run ::
  "externals \<Rightarrow> string list \<Rightarrow> nat option \<Rightarrow> world \<Rightarrow> (error + string) \<times> world" where
  "subprocess_run ext args env w =
     (let child_env = (case env of None \<Rightarrow> heap w ! os_environ w | Some a \<Rightarrow> heap w ! a);
          w' = w\<lparr>spawned := spawned w @ [(args, child_env)]\<rparr>
      in (case process_exit ext (spawned w) args child_env of
            NotStarted \<Rightarrow> (Inl OSError, w')
          | Exited rc raw \<Rightarrow>
              (case read_text raw of
                 Inl e \<Rightarrow> (Inl e, w')
               | Inr out \<Rightarrow> (if rc \<noteq> 0 then Inl (CalledProcessError rc) else Inr out, w'))))"

section \<open>The toolchain driver\<close>

subsection \<open>Construction\<close>

text \<open>
  The loop over \<open>binary_file_parsers\<close>: the first parser whose \<open>file_format\<close> is the
  configured object (\<open>is\<close>) is taken and the loop stops.
\<close>

fun find_parser ::
  "AbstractBinaryFileParser list \<Rightarrow> py_enum \<Rightarrow> AbstractBinaryFileParser option" where
  "find_parser [] fmt = None"
| "find_parser (p # ps) fmt =
     (if py_is (parser_file_format p) fmt then Some p else find_parser ps fmt)"

definition default_keep_list :: "string list" where
  "default_keep_list = [''.data'', ''.rodata'', ''.text'', ''.rel'']"

definition default_discard_list :: "string list" where
  "default_discard_list =
     [''.gnu.hash'', ''.comment'', ''.ARM.attributes'', ''.dynamic'', ''.ARM.exidx'',
      ''.hash'', ''.dynsym'', ''.dynstr'', ''.eh_frame'']"

text \<open>
  \<open>Toolchain.__init__\<close>, for a back end \<open>be\<close> and the class's parser list. No parser
  found is a \<open>ValueError\<close>; otherwise the flag lists start empty, the section lists get
  their defaults, and the two target hooks run last.
\<close>

definition init ::
  "backend \<Rightarrow> AbstractBinaryFileParser list \<Rightarrow> ArchInfo \<Rightarrow> ToolchainConfig
     \<Rightarrow> error + Toolchain" where
  "init be binary_file_parsers proc toolchain_config =
     (case find_parser binary_file_parsers (file_format toolchain_config) of
        None \<Rightarrow>
          Inl (ValueError (''No binary file parser found for format ''
                 @ enum_name (file_format toolchain_config) @ ''!''))
      | Some p \<Rightarrow>
          (case get_assembler_target be toolchain_config proc of
             Inl e \<Rightarrow> Inl e
           | Inr at \<Rightarrow>
               (case get_compiler_target be toolchain_config proc of
                  Inl e \<Rightarrow> Inl e
                | Inr ct \<Rightarrow>
                    Inr \<lparr> hooks = be,
                          processor = proc,
                          tc_file_format = file_format toolchain_config,
                          parser = p,
                          preprocessor_flags = [],
                          compiler_flags = [],
                          assembler_flags = [],
                          linker_flags = [],
                          config = toolchain_config,
                          linker_keep_list = default_keep_list,
                          linker_discard_list = default_discard_list,
                          assembler_target = at,
                          compiler_target = ct \<rparr>)))"

subsection \<open>Tool paths\<close>

definition assembler_path :: "externals \<Rightarrow> Toolchain \<Rightarrow> error + string" where
  "assembler_path ext t =
     (let key =
        (if enum_name (isa (processor t)) = ''M68K'' then ''M68K_ASM_PATH''
         else if enum_name (isa (processor t)) = ''X86''
                 \<and> enum_name (bit_width (processor t)) = ''BIT_64''
              then ''X86_64_ASM_PATH''
         else str_upper (enum_value (isa (processor t))) @ ''_ASM_PATH'')
      in get_repository_config ext ''ASM'' key)"

definition preprocessor_path :: "externals \<Rightarrow> Toolchain \<Rightarrow> error + string" where
  "preprocessor_path ext t = get_repository_config ext (name (hooks t)) ''PREPROCESSOR''"

definition compiler_path :: "externals \<Rightarrow> Toolchain \<Rightarrow> error + string" where
  "compiler_path ext t = get_repository_config ext (name (hooks t)) ''COMPILER''"

definition linker_path :: "externals \<Rightarrow> Toolchain \<Rightarrow> error + string" where
  "linker_path ext t = get_repository_config ext (name (hooks t)) ''LINKER''"

subsection \<open>Running a tool\<close>

text \<open>The truth value of the optional \<open>env\<close> argument: \<open>None\<close> and the empty dict are false.\<close>

definition env_truthy :: "dict option \<Rightarrow> bool" where
  "env_truthy env = (case env of None \<Rightarrow> False | Some e \<Rightarrow> e \<noteq> [])"

definition env_items :: "dict option \<Rightarrow> dict" where
  "env_items env = (case env of None \<Rightarrow> [] | Some e \<Rightarrow> e)"

text \<open>The argument vector \<open>[tool_path] + final_flags + in_files\<close>.\<close>

definition tool_args :: "string \<Rightarrow> string list \<Rightarrow> string list \<Rightarrow> string option \<Rightarrow> string list" where
  "tool_args tool_path flags in_files out_file =
     (let final_flags = flags @ (case out_file of None \<Rightarrow> [] | Some f \<Rightarrow> [''-o'' @ f])
      in [tool_path] @ final_flags @ in_files)"

definition called_process_message :: "string list \<Rightarrow> int \<Rightarrow> string" where
  "called_process_message args rc =
     ''Command '' @ [CHR 0x22] @ str_join '' '' args @ [CHR 0x22]
       @ '' returned non-zero exit status '' @ str_of_int rc"

text \<open>
  \<open>Toolchain._execute_tool\<close>. Only \<open>CalledProcessError\<close> is caught and turned into a
  \<open>ValueError\<close>; any other exception of \<open>subprocess.run\<close> passes through.
\<close>

definition execute_tool ::
  "externals \<Rightarrow> string \<Rightarrow> string list \<Rightarrow> string list \<Rightarrow> string option \<Rightarrow> dict option
     \<Rightarrow> world \<Rightarrow> (error + string) \<times> world" where
  "execute_tool ext tool_path flags in_files out_file env w =
     (let args = tool_args tool_path flags in_files out_file;
          w1 = logger_info (LogText (str_join '' '' args)) w;
          (res, w2) =
            (if env_truthy env then
               (let (my_env, wa) = dict_copy (os_environ w1) w1;
                    wb = dict_update_obj my_env (env_items env) wa;
                    wc = logger_info (LogEnv (heap wb ! my_env)) wb
                in subprocess_run ext args (Some my_env) wc)
             else subprocess_run ext args None w1)
      in (case res of
            Inl (CalledProcessError rc) \<Rightarrow> (Inl (ValueError (called_process_message args rc)), w2)
          | Inl e \<Rightarrow> (Inl e, w2)
          | Inr out \<Rightarrow> (Inr out, w2)))"

subsection \<open>Pipeline stages\<close>

text \<open>
  The body shared by \<open>preprocess\<close>, \<open>compile\<close> and \<open>assemble\<close>, which differ in the tool,
  the flag list and the suffix only. The tool path is a property read while the call's
  arguments are evaluated, so a failing lookup raises before anything runs.
\<close>

definition run_stage ::
  "externals \<Rightarrow> error + string \<Rightarrow> string list \<Rightarrow> string \<Rightarrow> string \<Rightarrow> string list \<Rightarrow> string
     \<Rightarrow> world \<Rightarrow> (error + string) \<times> world" where
  "run_stage ext tool flags sfx source_file header_dirs out_dir w =
     (let out_file = path_join out_dir (snd (path_split source_file) @ sfx)
      in (case tool of
            Inl e \<Rightarrow> (Inl e, w)
          | Inr tool_path \<Rightarrow>
              (case execute_tool ext tool_path flags
                      ([source_file] @ map (\<lambda>x. ''-I'' @ x) header_dirs)
                      (Some out_file) None w of
                 (Inl e, w') \<Rightarrow> (Inl e, w')
               | (Inr _, w') \<Rightarrow> (Inr (abspath (cwd w') out_file), w'))))"

definition preprocess ::
  "externals \<Rightarrow> Toolchain \<Rightarrow> string \<Rightarrow> string list \<Rightarrow> string \<Rightarrow> world
     \<Rightarrow> (error + string) \<times> world" where
  "preprocess ext t source_file header_dirs out_dir w =
     run_stage ext (preprocessor_path ext t) (preprocessor_flags t) ''.p''
       source_file header_dirs out_dir w"

definition compile ::
  "externals \<Rightarrow> Toolchain \<Rightarrow> string \<Rightarrow> string list \<Rightarrow> string \<Rightarrow> world
     \<Rightarrow> (error + string) \<times> world" where
  "compile ext t c_file header_dirs out_dir w =
     run_stage ext (compiler_path ext t) (compiler_flags t) ''.o''
       c_file header_dirs out_dir w"

definition assemble ::
  "externals \<Rightarrow> Toolchain \<Rightarrow> string \<Rightarrow> string list \<Rightarrow> string \<Rightarrow> world
     \<Rightarrow> (error + string) \<times> world" where
  "assemble ext t asm_file header_dirs out_dir w =
     run_stage ext (assembler_path ext t) (assembler_flags t) ''.o''
       asm_file header_dirs out_dir w"

text \<open>The flag list \<open>link\<close> builds before it calls the linker.\<close>

definition link_flags :: "Toolchain \<Rightarrow> string \<Rightarrow> string option \<Rightarrow> string list" where
  "link_flags t exec_path script =
     linker_flags t
       @ (case script of None \<Rightarrow> [] | Some s \<Rightarrow> [linker_script_flag (hooks t) @ s])
       @ (if create_map_files (config t) then get_linker_map_flag (hooks t) exec_path else [])"

definition link ::
  "externals \<Rightarrow> Toolchain \<Rightarrow> string list \<Rightarrow> string \<Rightarrow> string option \<Rightarrow> world
     \<Rightarrow> (error + unit) \<times> world" where
  "link ext t o_files exec_path script w =
     (let flags = link_flags t exec_path script
      in (case linker_path ext t of
            Inl e \<Rightarrow> (Inl e, w)
          | Inr tool_path \<Rightarrow>
              (case execute_tool ext tool_path flags o_files (Some exec_path) None w of
                 (Inl e, w') \<Rightarrow> (Inl e, w')
               | (Inr _, w') \<Rightarrow> (Inr (), w'))))"

subsection \<open>Section and symbol policy\<close>

definition linker_include_filter :: "string \<Rightarrow> bool" where
  "linker_include_filter symbol_name =
     (str_contains ''.'' symbol_name \<or> str_contains ''_DYNAMIC'' symbol_name)"

definition keep_section :: "Toolchain \<Rightarrow> string \<Rightarrow> error + bool" where
  "keep_section t section_name =
     (if separate_data_sections (config t)
      then Inl (NotImplementedError ''you must override keep_section() in your Toolchain sublass'')
      else Inr (section_name \<in> set (linker_keep_list t)))"

section \<open>A concrete back end, configuration and world\<close>

text \<open>
  One small instance of everything the driver is parameterised over, for evaluating the
  model: a GNU-like back end, a single ELF parser, a configuration store that answers
  every lookup, and a world in which the linker fails with status 1 and every other tool
  succeeds, each printing \<open>out\<close>.
\<close>

definition ELF :: py_enum where
  "ELF = \<lparr> obj_id = 7, enum_name = ''ELF'', enum_value = ''elf'' \<rparr>"

definition ex_backend :: backend where
  "ex_backend =
     \<lparr> name = ''GNU'',
       get_assembler_target = (\<lambda>c p. Inr ''armv7-a''),
       get_compiler_target = (\<lambda>c p. Inr None),
       linker_script_flag = ''-T'',
       get_linker_map_flag = (\<lambda>e. [''-Map='' @ e @ ''.map'']),
       segment_alignment = 4 \<rparr>"

definition ex_arch :: ArchInfo where
  "ex_arch =
     \<lparr> isa = \<lparr> obj_id = 1, enum_name = ''ARM'', enum_value = ''arm'' \<rparr>,
       bit_width = \<lparr> obj_id = 2, enum_name = ''BIT_32'', enum_value = ''32'' \<rparr> \<rparr>"

definition ex_parsers :: "AbstractBinaryFileParser list" where
  "ex_parsers = [\<lparr> parser_id = 0, parser_file_format = ELF \<rparr>]"

definition ex_cfg :: ToolchainConfig where
  "ex_cfg =
     \<lparr> file_format = ELF, userspace_dynamic_linker = None, relocatable = False,
       separate_data_sections = False, create_map_files = True \<rparr>"

definition ex_toolchain :: Toolchain where
  "ex_toolchain =
     \<lparr> hooks = ex_backend,
       processor = ex_arch,
       tc_file_format = ELF,
       parser = \<lparr> parser_id = 0, parser_file_format = ELF \<rparr>,
       preprocessor_flags = [],
       compiler_flags = [],
       assembler_flags = [],
       linker_flags = [],
       config = ex_cfg,
       linker_keep_list = default_keep_list,
       linker_discard_list = default_discard_list,
       assembler_target = ''armv7-a'',
       compiler_target = None \<rparr>"

definition ex_ext :: externals where
  "ex_ext =
     \<lparr> get_repository_config = (\<lambda>s k. Inr (s @ ''_'' @ k)),
       process_exit = (\<lambda>earlier args env.
                         Exited (if take 1 args = [''GNU_LINKER''] then 1 else 0) ''out'') \<rparr>"

text \<open>The same, except that every tool writes two bytes that are not UTF-8 and exits with status 1.\<close>

definition ex_ext_undecodable :: externals where
  "ex_ext_undecodable =
     \<lparr> get_repository_config = (\<lambda>s k. Inr (s @ ''_'' @ k)),
       process_exit = (\<lambda>earlier args env. Exited 1 [CHR 0xFF, CHR 0xFE]) \<rparr>"

definition ex_world :: world where
  "ex_world =
     \<lparr> heap = [[(''PATH'', ''/bin'')]], os_environ = 0, cwd = ''/w'',
       logged = [], spawned = [] \<rparr>"

text \<open>
  A second file format, a second object with the content of \<open>ELF\<close>, and a parser list in
  which two parsers handle \<open>ELF\<close>.
\<close>

definition PE :: py_enum where
  "PE = \<lparr> obj_id = 9, enum_name = ''PE'', enum_value = ''pe'' \<rparr>"

definition ELF_twin :: py_enum where
  "ELF_twin = \<lparr> obj_id = 8, enum_name = ''ELF'', enum_value = ''elf'' \<rparr>"

definition ex_parsers2 :: "AbstractBinaryFileParser list" where
  "ex_parsers2 =
     [\<lparr> parser_id = 5, parser_file_format = PE \<rparr>,
      \<lparr> parser_id = 0, parser_file_format = ELF \<rparr>,
      \<lparr> parser_id = 1, parser_file_format = ELF \<rparr>]"

section \<open>The behaviour as the specification states it\<close>

text \<open>
  The environment a child process is expected to see: the ambient environment, with the
  caller's overlay merged over it when one is given and non-empty.
\<close>

definition child_environment :: "dict option \<Rightarrow> world \<Rightarrow> dict" where
  "child_environment env w =
     (if env_truthy env then dict_update (heap w ! os_environ w) (env_items env)
      else heap w ! os_environ w)"

text \<open>
  The argument order as the specification words it: tool path, fixed flags, one \<open>-I\<close>
  flag per header directory, the input files, and the output flag last.
\<close>

definition spec_argv ::
  "string \<Rightarrow> string list \<Rightarrow> string list \<Rightarrow> string list \<Rightarrow> string option \<Rightarrow> string list" where
  "spec_argv tool_path flags header_dirs in_files out_file =
     [tool_path] @ flags @ map (\<lambda>x. ''-I'' @ x) header_dirs @ in_files
       @ (case out_file of None \<Rightarrow> [] | Some f \<Rightarrow> [''-o'' @ f])"


section \<open>Properties\<close>

subsection \<open>Helper facts\<close>

lemma init_example: "init ex_backend ex_parsers ex_arch ex_cfg = Inr ex_toolchain"
  by (simp add: init_def ex_parsers_def ex_cfg_def ex_backend_def ex_toolchain_def py_is_def)

lemma str_contains_sublist: "str_contains sub s = sublist sub s"
  by (induction s) (simp_all add: sublist_Cons_right)

lemma str_contains_char: "str_contains [c] s = (c \<in> set s)"
  by (induction s) auto

lemma execute_tool_unfold:
  "execute_tool ext tool flags ins out env w =
     (let args = tool_args tool flags ins out;
          cenv = child_environment env w
      in (case process_exit ext (spawned w) args cenv of
            NotStarted \<Rightarrow> Inl OSError
          | Exited rc raw \<Rightarrow>
              if \<not> utf8_valid raw then Inl UnicodeDecodeError
              else if rc \<noteq> 0 then Inl (ValueError (called_process_message args rc))
              else Inr (universal_newlines raw),
          w\<lparr> heap := (if env_truthy env then heap w @ [cenv] else heap w),
             logged := logged w @ [LogText (str_join '' '' args)]
                         @ (if env_truthy env then [LogEnv cenv] else []),
             spawned := spawned w @ [(args, cenv)] \<rparr>))"
proof (cases "env_truthy env")
  case True
  then show ?thesis
    by (simp add: execute_tool_def child_environment_def subprocess_run_def logger_info_def
        dict_copy_def dict_update_obj_def read_text_def Let_def
        split: process_outcome.splits)
next
  case False
  then show ?thesis
    by (simp add: execute_tool_def child_environment_def subprocess_run_def logger_info_def
        read_text_def Let_def split: process_outcome.splits)
qed

lemma find_parser_None:
  "(find_parser ps fmt = None) = (\<forall>p\<in>set ps. \<not> py_is (parser_file_format p) fmt)"
  by (induction ps) auto

lemma find_parser_Some:
  "(find_parser ps fmt = Some p) =
     (\<exists>pre post. ps = pre @ p # post \<and> py_is (parser_file_format p) fmt
        \<and> (\<forall>q\<in>set pre. \<not> py_is (parser_file_format q) fmt))"
proof (induction ps)
  case Nil
  then show ?case by simp
next
  case (Cons a ps)
  show ?case
  proof (cases "py_is (parser_file_format a) fmt")
    case True
    have "(\<exists>pre post. a # ps = pre @ p # post \<and> py_is (parser_file_format p) fmt
        \<and> (\<forall>q\<in>set pre. \<not> py_is (parser_file_format q) fmt)) = (a = p)"
    proof
      assume "\<exists>pre post. a # ps = pre @ p # post \<and> py_is (parser_file_format p) fmt
        \<and> (\<forall>q\<in>set pre. \<not> py_is (parser_file_format q) fmt)"
      then obtain pre post where h: "a # ps = pre @ p # post"
        "\<forall>q\<in>set pre. \<not> py_is (parser_file_format q) fmt" by blast
      show "a = p"
      proof (cases pre)
        case Nil
        with h show ?thesis by simp
      next
        case (Cons b bs)
        with h True show ?thesis by auto
      qed
    next
      assume "a = p"
      with True have "a # ps = [] @ p # ps \<and> py_is (parser_file_format p) fmt
        \<and> (\<forall>q\<in>set []. \<not> py_is (parser_file_format q) fmt)" by simp
      then show "\<exists>pre post. a # ps = pre @ p # post \<and> py_is (parser_file_format p) fmt
        \<and> (\<forall>q\<in>set pre. \<not> py_is (parser_file_format q) fmt)" by blast
    qed
    with True show ?thesis by simp
  next
    case False
    have "(\<exists>pre post. a # ps = pre @ p # post \<and> py_is (parser_file_format p) fmt
        \<and> (\<forall>q\<in>set pre. \<not> py_is (parser_file_format q) fmt))
        = (\<exists>pre post. ps = pre @ p # post \<and> py_is (parser_file_format p) fmt
        \<and> (\<forall>q\<in>set pre. \<not> py_is (parser_file_format q) fmt))" (is "?L = ?R")
    proof
      assume ?L
      then obtain pre post where h: "a # ps = pre @ p # post" "py_is (parser_file_format p) fmt"
        "\<forall>q\<in>set pre. \<not> py_is (parser_file_format q) fmt" by blast
      show ?R
      proof (cases pre)
        case Nil
        with h False show ?thesis by simp
      next
        case (Cons b bs)
        with h have "ps = bs @ p # post \<and> py_is (parser_file_format p) fmt
           \<and> (\<forall>q\<in>set bs. \<not> py_is (parser_file_format q) fmt)" by simp
        then show ?thesis by blast
      qed
    next
      assume ?R
      then obtain pre post where h: "ps = pre @ p # post" "py_is (parser_file_format p) fmt"
        "\<forall>q\<in>set pre. \<not> py_is (parser_file_format q) fmt" by blast
      with False have "a # ps = (a # pre) @ p # post \<and> py_is (parser_file_format p) fmt
           \<and> (\<forall>q\<in>set (a # pre). \<not> py_is (parser_file_format q) fmt)" by simp
      then show ?L by blast
    qed
    with False Cons.IH show ?thesis by simp
  qed
qed


lemma init_no_parser:
  "find_parser ps (file_format cfg) = None \<Longrightarrow>
   init be ps proc cfg = Inl (ValueError (''No binary file parser found for format ''
                 @ enum_name (file_format cfg) @ ''!''))"
  by (simp add: init_def)

lemma init_with_parser:
  "find_parser ps (file_format cfg) = Some p \<Longrightarrow>
   (case init be ps proc cfg of
      Inr t \<Rightarrow> parser t = p
    | Inl e \<Rightarrow> get_assembler_target be cfg proc = Inl e \<or> get_compiler_target be cfg proc = Inl e)"
  by (simp add: init_def split: sum.splits)

lemma init_succeeds:
  "find_parser ps (file_format cfg) = Some p \<Longrightarrow>
   get_assembler_target be cfg proc = Inr at \<Longrightarrow>
   get_compiler_target be cfg proc = Inr ct \<Longrightarrow>
   \<exists>t. init be ps proc cfg = Inr t \<and> parser t = p"
  by (simp add: init_def)

lemma dict_update_map_of: "map_of (dict_update d e) = map_of d ++ map_of (rev e)"
  unfolding dict_update_def
proof (induction e arbitrary: d)
  case Nil
  then show ?case by simp
next
  case (Cons x e)
  obtain k v where x: "x = (k, v)" by (cases x)
  have "map_of (fold (\<lambda>(k, v). AList.update k v) e (AList.update k v d))
          = map_of (AList.update k v d) ++ map_of (rev e)"
    by (rule Cons.IH)
  also have "\<dots> = (map_of d ++ [k \<mapsto> v]) ++ map_of (rev e)"
    by (simp add: update_conv')
  also have "\<dots> = map_of d ++ map_of (rev (x # e))"
    by (simp add: x)
  finally show ?case by (simp add: x)
qed

lemma run_stage_unfold:
  "run_stage ext (Inr tool) flags sfx src hdrs out_dir w =
     (let out_file = path_join out_dir (snd (path_split src) @ sfx);
          r = execute_tool ext tool flags ([src] @ map (\<lambda>x. ''-I'' @ x) hdrs) (Some out_file) None w
      in (case fst r of Inl e \<Rightarrow> Inl e | Inr _ \<Rightarrow> Inr (abspath (cwd (snd r)) out_file), snd r))"
proof -
  obtain r w' where e:
    "execute_tool ext tool flags ([src] @ map (\<lambda>x. ''-I'' @ x) hdrs)
       (Some (path_join out_dir (snd (path_split src) @ sfx))) None w = (r, w')"
    by (cases "execute_tool ext tool flags ([src] @ map (\<lambda>x. ''-I'' @ x) hdrs)
       (Some (path_join out_dir (snd (path_split src) @ sfx))) None w")
  show ?thesis
    unfolding run_stage_def Let_def sum.case e
    by (cases r) simp_all
qed

lemma run_stage_spawned:
  "spawned (snd (run_stage ext (Inr tool) flags sfx src hdrs out_dir w))
     = spawned w @ [([tool] @ flags @ [''-o'' @ path_join out_dir (snd (path_split src) @ sfx)]
                       @ [src] @ map (\<lambda>x. ''-I'' @ x) hdrs,
                     heap w ! os_environ w)]"
  by (simp add: run_stage_unfold execute_tool_unfold Let_def tool_args_def
        child_environment_def env_truthy_def)

lemma link_spawned:
  "linker_path ext t = Inr tool \<Longrightarrow>
   spawned (snd (link ext t o_files exec_path script w))
     = spawned w @ [([tool] @ link_flags t exec_path script @ [''-o'' @ exec_path] @ o_files,
                     heap w ! os_environ w)]"
  by (simp add: link_def execute_tool_unfold Let_def tool_args_def
        child_environment_def env_truthy_def split: prod.splits sum.splits)

lemma ex_paths:
  "preprocessor_path ex_ext ex_toolchain = Inr ''GNU_PREPROCESSOR''"
  "compiler_path ex_ext ex_toolchain = Inr ''GNU_COMPILER''"
  "linker_path ex_ext ex_toolchain = Inr ''GNU_LINKER''"
  by (simp_all add: preprocessor_path_def compiler_path_def linker_path_def
        ex_ext_def ex_toolchain_def ex_backend_def)

lemma ex_assembler_path: "assembler_path ex_ext ex_toolchain = Inr ''ASM_ARM_ASM_PATH''"
  by code_simp

lemma ex_out_file: "path_join ''build'' (snd (path_split ''src/a.c'') @ ''.p'') = ''build/a.c.p''"
  by (simp add: path_join_def path_split_def isabs_def endswith_sep_def sep_def Let_def)
















subsection \<open>Section policy\<close>

text \<open>
  C5. For an instance built by the constructor from a configuration whose
  \<open>separate_data_sections\<close> flag is false, \<open>keep_section\<close> returns a boolean for every
  section name, and that boolean is true exactly for \<open>.data\<close>, \<open>.rodata\<close>, \<open>.text\<close>
  and \<open>.rel\<close>.
\<close>

theorem keep_section_default_list:
  assumes "init be ps proc cfg = Inr t"
    and "\<not> separate_data_sections cfg"
  shows "keep_section t n = Inr (n \<in> {''.data'', ''.rodata'', ''.text'', ''.rel''})"
proof -
  from assms(1) have "config t = cfg" and "linker_keep_list t = default_keep_list"
    by (auto simp: init_def split: option.splits sum.splits)
  with assms(2) show ?thesis
    by (auto simp: keep_section_def default_keep_list_def)
qed

theorem keep_section_default_list_witness:
  "keep_section ex_toolchain ''.text'' = Inr True
   \<and> keep_section ex_toolchain ''.bss'' = Inr False"
proof -
  have f: "\<not> separate_data_sections ex_cfg"
    by (simp add: ex_cfg_def)
  show ?thesis
    using keep_section_default_list [OF init_example f, of "''.text''"]
      keep_section_default_list [OF init_example f, of "''.bss''"]
    by simp
qed

text \<open>
  C6. When the configuration's \<open>separate_data_sections\<close> flag is true, the base
  \<open>keep_section\<close> raises \<open>NotImplementedError\<close> for every section name, the names of the
  keep list included; it never returns a boolean.
\<close>

theorem keep_section_separate_raises:
  assumes "separate_data_sections (config t)"
  shows "keep_section t n
           = Inl (NotImplementedError ''you must override keep_section() in your Toolchain sublass'')"
  using assms by (simp add: keep_section_def)

theorem keep_section_separate_raises_witness:
  "keep_section (ex_toolchain\<lparr>config := ex_cfg\<lparr>separate_data_sections := True\<rparr>\<rparr>) ''.text''
     = Inl (NotImplementedError ''you must override keep_section() in your Toolchain sublass'')"
proof -
  have "separate_data_sections
          (config (ex_toolchain\<lparr>config := ex_cfg\<lparr>separate_data_sections := True\<rparr>\<rparr>))"
    by simp
  from keep_section_separate_raises [OF this, of "''.text''"] show ?thesis .
qed

subsection \<open>Symbol filter\<close>

text \<open>
  C8. \<open>linker_include_filter\<close> is true exactly for the names that contain the character
  \<open>.\<close> or the substring \<open>_DYNAMIC\<close>; it is true for \<open>foo.bar\<close> and \<open>_DYNAMIC_LINK\<close> and
  false for \<open>plain\<close>.
\<close>

theorem linker_include_filter_spec:
  "linker_include_filter s
     = (CHR ''.'' \<in> set s \<or> (\<exists>p q. s = p @ ''_DYNAMIC'' @ q))
   \<and> linker_include_filter ''foo.bar''
   \<and> linker_include_filter ''_DYNAMIC_LINK''
   \<and> \<not> linker_include_filter ''plain''"
proof -
  have "linker_include_filter s
          = (CHR ''.'' \<in> set s \<or> (\<exists>p q. s = p @ ''_DYNAMIC'' @ q))"
    unfolding linker_include_filter_def str_contains_char
    by (simp only: str_contains_sublist sublist_def)
  moreover have "linker_include_filter ''foo.bar''"
    by (simp add: linker_include_filter_def)
  moreover have "linker_include_filter ''_DYNAMIC_LINK''"
    by (simp add: linker_include_filter_def)
  moreover have "\<not> linker_include_filter ''plain''"
    by (simp add: linker_include_filter_def)
  ultimately show ?thesis by blast
qed

subsection \<open>Construction\<close>

text \<open>
  C4. If no parser of the registered list has the configured \<open>file_format\<close>, construction
  fails with the \<open>ValueError\<close> "No binary file parser found for format ...". If some
  parser has it, one parser of the list with that format is selected; construction then
  either returns an instance bound to that parser, or fails with the error of one of the
  two target hooks, never with the missing-parser error.
\<close>

theorem init_parser_binding:
  "((\<forall>p\<in>set ps. \<not> py_is (parser_file_format p) (file_format cfg)) \<longrightarrow>
      init be ps proc cfg
        = Inl (ValueError (''No binary file parser found for format ''
                 @ enum_name (file_format cfg) @ ''!'')))
   \<and> ((\<exists>p\<in>set ps. py_is (parser_file_format p) (file_format cfg)) \<longrightarrow>
        (\<exists>p\<in>set ps. py_is (parser_file_format p) (file_format cfg)
           \<and> (case init be ps proc cfg of
                 Inr t \<Rightarrow> parser t = p
               | Inl e \<Rightarrow> get_assembler_target be cfg proc = Inl e
                           \<or> get_compiler_target be cfg proc = Inl e)))"
proof (intro conjI impI)
  assume "\<forall>p\<in>set ps. \<not> py_is (parser_file_format p) (file_format cfg)"
  then have "find_parser ps (file_format cfg) = None"
    by (simp add: find_parser_None)
  then show "init be ps proc cfg
        = Inl (ValueError (''No binary file parser found for format ''
                 @ enum_name (file_format cfg) @ ''!''))"
    by (rule init_no_parser)
next
  assume "\<exists>p\<in>set ps. py_is (parser_file_format p) (file_format cfg)"
  then have "find_parser ps (file_format cfg) \<noteq> None"
    by (simp add: find_parser_None)
  then obtain p where p: "find_parser ps (file_format cfg) = Some p"
    by blast
  then have "p \<in> set ps" and "py_is (parser_file_format p) (file_format cfg)"
    by (auto simp: find_parser_Some)
  with init_with_parser [OF p, of be proc]
  show "\<exists>p\<in>set ps. py_is (parser_file_format p) (file_format cfg)
           \<and> (case init be ps proc cfg of
                 Inr t \<Rightarrow> parser t = p
               | Inl e \<Rightarrow> get_assembler_target be cfg proc = Inl e
                           \<or> get_compiler_target be cfg proc = Inl e)"
    by blast
qed

theorem init_parser_binding_witness:
  "init ex_backend ex_parsers ex_arch (ex_cfg\<lparr>file_format := PE\<rparr>)
     = Inl (ValueError ''No binary file parser found for format PE!'')
   \<and> (\<exists>p\<in>set ex_parsers. py_is (parser_file_format p) (file_format ex_cfg)
         \<and> parser ex_toolchain = p)"
proof -
  have a: "\<forall>p\<in>set ex_parsers.
             \<not> py_is (parser_file_format p) (file_format (ex_cfg\<lparr>file_format := PE\<rparr>))"
    by (simp add: ex_parsers_def PE_def ELF_def py_is_def)
  have b: "\<exists>p\<in>set ex_parsers. py_is (parser_file_format p) (file_format ex_cfg)"
    by (simp add: ex_parsers_def ex_cfg_def py_is_def)
  from a init_parser_binding [of ex_parsers "ex_cfg\<lparr>file_format := PE\<rparr>" ex_backend ex_arch]
  have "init ex_backend ex_parsers ex_arch (ex_cfg\<lparr>file_format := PE\<rparr>)
          = Inl (ValueError (''No binary file parser found for format ''
                   @ enum_name (file_format (ex_cfg\<lparr>file_format := PE\<rparr>)) @ ''!''))"
    by blast
  then have 1: "init ex_backend ex_parsers ex_arch (ex_cfg\<lparr>file_format := PE\<rparr>)
          = Inl (ValueError ''No binary file parser found for format PE!'')"
    by (simp add: PE_def)
  from b init_parser_binding [of ex_parsers ex_cfg ex_backend ex_arch]
  have "\<exists>p\<in>set ex_parsers. py_is (parser_file_format p) (file_format ex_cfg)
           \<and> (case init ex_backend ex_parsers ex_arch ex_cfg of
                 Inr t \<Rightarrow> parser t = p
               | Inl e \<Rightarrow> get_assembler_target ex_backend ex_cfg ex_arch = Inl e
                           \<or> get_compiler_target ex_backend ex_cfg ex_arch = Inl e)"
    by blast
  then have 2: "\<exists>p\<in>set ex_parsers. py_is (parser_file_format p) (file_format ex_cfg)
         \<and> parser ex_toolchain = p"
    by (simp add: init_example)
  from 1 2 show ?thesis by blast
qed

text \<open>
  C10. The parser bound is the first one in list order whose \<open>file_format\<close> is the
  configured object, however many others match after it: construction returns an
  instance bound to that parser whenever both target hooks return, and otherwise fails
  with the error of a hook. The test is object identity: when no parser's format is the
  very object configured, construction fails with the missing-parser \<open>ValueError\<close>, also
  when a parser's format has the same name and value.
\<close>

theorem init_first_match_by_identity:
  "(\<forall>pre p post.
       ps = pre @ p # post \<and> py_is (parser_file_format p) (file_format cfg)
         \<and> (\<forall>q\<in>set pre. \<not> py_is (parser_file_format q) (file_format cfg))
       \<longrightarrow> find_parser ps (file_format cfg) = Some p
           \<and> (\<forall>t. init be ps proc cfg = Inr t \<longrightarrow> parser t = p)
           \<and> (case init be ps proc cfg of
                 Inr t \<Rightarrow> parser t = p
               | Inl e \<Rightarrow> get_assembler_target be cfg proc = Inl e
                           \<or> get_compiler_target be cfg proc = Inl e)
           \<and> (\<forall>at ct. get_assembler_target be cfg proc = Inr at
                        \<and> get_compiler_target be cfg proc = Inr ct
                 \<longrightarrow> (\<exists>t. init be ps proc cfg = Inr t \<and> parser t = p)))
   \<and> ((\<forall>q\<in>set ps. obj_id (parser_file_format q) \<noteq> obj_id (file_format cfg))
        \<longrightarrow> init be ps proc cfg
              = Inl (ValueError (''No binary file parser found for format ''
                       @ enum_name (file_format cfg) @ ''!'')))"
proof (intro conjI allI impI)
  fix pre p post
  assume a: "ps = pre @ p # post \<and> py_is (parser_file_format p) (file_format cfg)
         \<and> (\<forall>q\<in>set pre. \<not> py_is (parser_file_format q) (file_format cfg))"
  then show f: "find_parser ps (file_format cfg) = Some p"
    unfolding find_parser_Some by blast
  show "case init be ps proc cfg of
          Inr t \<Rightarrow> parser t = p
        | Inl e \<Rightarrow> get_assembler_target be cfg proc = Inl e
                    \<or> get_compiler_target be cfg proc = Inl e"
    by (rule init_with_parser [OF f])
  {
    fix t
    assume "init be ps proc cfg = Inr t"
    with init_with_parser [OF f, of be proc] show "parser t = p"
      by simp
  }
  {
    fix at ct
    assume "get_assembler_target be cfg proc = Inr at
              \<and> get_compiler_target be cfg proc = Inr ct"
    then show "\<exists>t. init be ps proc cfg = Inr t \<and> parser t = p"
      using init_succeeds [OF f] by blast
  }
next
  assume "\<forall>q\<in>set ps. obj_id (parser_file_format q) \<noteq> obj_id (file_format cfg)"
  then have "find_parser ps (file_format cfg) = None"
    by (simp add: find_parser_None py_is_def)
  then show "init be ps proc cfg
              = Inl (ValueError (''No binary file parser found for format ''
                       @ enum_name (file_format cfg) @ ''!''))"
    by (rule init_no_parser)
qed

theorem init_first_match_by_identity_witness:
  "(\<exists>t. init ex_backend ex_parsers2 ex_arch ex_cfg = Inr t
        \<and> parser t = \<lparr> parser_id = 0, parser_file_format = ELF \<rparr>)
   \<and> same_content ELF_twin ELF
   \<and> init ex_backend ex_parsers2 ex_arch (ex_cfg\<lparr>file_format := ELF_twin\<rparr>)
       = Inl (ValueError ''No binary file parser found for format ELF!'')"
proof -
  have a: "ex_parsers2 = [\<lparr> parser_id = 5, parser_file_format = PE \<rparr>]
              @ \<lparr> parser_id = 0, parser_file_format = ELF \<rparr>
              # [\<lparr> parser_id = 1, parser_file_format = ELF \<rparr>]
           \<and> py_is (parser_file_format \<lparr> parser_id = 0, parser_file_format = ELF \<rparr>)
                (file_format ex_cfg)
           \<and> (\<forall>q\<in>set [\<lparr> parser_id = 5, parser_file_format = PE \<rparr>].
                  \<not> py_is (parser_file_format q) (file_format ex_cfg))"
    by (simp add: ex_parsers2_def ex_cfg_def py_is_def PE_def ELF_def)
  have h: "get_assembler_target ex_backend ex_cfg ex_arch = Inr ''armv7-a''
             \<and> get_compiler_target ex_backend ex_cfg ex_arch = Inr None"
    by (simp add: ex_backend_def)
  have b: "\<forall>q\<in>set ex_parsers2.
             obj_id (parser_file_format q) \<noteq> obj_id (file_format (ex_cfg\<lparr>file_format := ELF_twin\<rparr>))"
    by (simp add: ex_parsers2_def PE_def ELF_def ELF_twin_def)
  from a h init_first_match_by_identity [of ex_parsers2 ex_cfg ex_backend ex_arch]
  have 1: "\<exists>t. init ex_backend ex_parsers2 ex_arch ex_cfg = Inr t
        \<and> parser t = \<lparr> parser_id = 0, parser_file_format = ELF \<rparr>"
    by blast
  from b init_first_match_by_identity
           [of ex_parsers2 "ex_cfg\<lparr>file_format := ELF_twin\<rparr>" ex_backend ex_arch]
  have "init ex_backend ex_parsers2 ex_arch (ex_cfg\<lparr>file_format := ELF_twin\<rparr>)
       = Inl (ValueError (''No binary file parser found for format ''
                       @ enum_name (file_format (ex_cfg\<lparr>file_format := ELF_twin\<rparr>)) @ ''!''))"
    by blast
  then have 2: "init ex_backend ex_parsers2 ex_arch (ex_cfg\<lparr>file_format := ELF_twin\<rparr>)
       = Inl (ValueError ''No binary file parser found for format ELF!'')"
    by (simp add: ELF_twin_def)
  have 3: "same_content ELF_twin ELF"
    by (simp add: same_content_def ELF_twin_def ELF_def)
  from 1 2 3 show ?thesis by blast
qed

subsection \<open>Running a tool\<close>

text \<open>
  C3 (as amended). When the child process runs and exits, its output and its exit status
  decide the result of \<open>_execute_tool\<close>. Output that is valid UTF-8 with a non-zero exit
  status raises a \<open>ValueError\<close> whose message holds the argument vector joined with
  spaces and the exit status in decimal; output that is valid UTF-8 with exit status zero
  returns the captured output as text. Output that is not valid UTF-8 raises
  \<open>UnicodeDecodeError\<close> whatever the exit status. In every case \<open>subprocess.run\<close> was
  called exactly once.
\<close>

theorem execute_tool_exit_status:
  assumes "process_exit ext (spawned w) (tool_args tool flags ins out) (child_environment env w)
             = Exited rc raw"
  shows "fst (execute_tool ext tool flags ins out env w)
           = (if \<not> utf8_valid raw then Inl UnicodeDecodeError
              else if rc \<noteq> 0
              then Inl (ValueError
                     (''Command '' @ [CHR 0x22] @ str_join '' '' (tool_args tool flags ins out)
                        @ [CHR 0x22] @ '' returned non-zero exit status '' @ str_of_int rc))
              else Inr (universal_newlines raw))
         \<and> spawned (snd (execute_tool ext tool flags ins out env w))
             = spawned w @ [(tool_args tool flags ins out, child_environment env w)]"
  using assms by (simp add: execute_tool_unfold called_process_message_def Let_def)

theorem execute_tool_exit_status_witness:
  "fst (execute_tool ex_ext ''GNU_LINKER'' [''-Ts.ld''] [''a.o'', ''b.o''] (Some ''out/x'') None ex_world)
     = Inl (ValueError (''Command '' @ [CHR 0x22] @ ''GNU_LINKER -Ts.ld -oout/x a.o b.o''
              @ [CHR 0x22] @ '' returned non-zero exit status 1''))
   \<and> spawned (snd (execute_tool ex_ext ''GNU_LINKER'' [''-Ts.ld''] [''a.o'', ''b.o''] (Some ''out/x'') None ex_world))
       = [([''GNU_LINKER'', ''-Ts.ld'', ''-oout/x'', ''a.o'', ''b.o''], [(''PATH'', ''/bin'')])]
   \<and> fst (execute_tool ex_ext ''cc'' [''-c''] [''a.c''] (Some ''a.o'') None ex_world) = Inr ''out''"
proof -
  have a: "process_exit ex_ext (spawned ex_world)
             (tool_args ''GNU_LINKER'' [''-Ts.ld''] [''a.o'', ''b.o''] (Some ''out/x''))
             (child_environment None ex_world) = Exited 1 ''out''"
    by (simp add: ex_ext_def tool_args_def)
  have b: "process_exit ex_ext (spawned ex_world)
             (tool_args ''cc'' [''-c''] [''a.c''] (Some ''a.o''))
             (child_environment None ex_world) = Exited 0 ''out''"
    by (simp add: ex_ext_def tool_args_def)
  have c: "tool_args ''GNU_LINKER'' [''-Ts.ld''] [''a.o'', ''b.o''] (Some ''out/x'')
             = [''GNU_LINKER'', ''-Ts.ld'', ''-oout/x'', ''a.o'', ''b.o'']"
    by (simp add: tool_args_def)
  have d: "child_environment None ex_world = [(''PATH'', ''/bin'')]"
    by (simp add: child_environment_def env_truthy_def ex_world_def)
  have e: "str_of_int 1 = ''1''"
    by code_simp
  have f: "spawned ex_world = []"
    by (simp add: ex_world_def)
  from execute_tool_exit_status [OF a] execute_tool_exit_status [OF b]
  show ?thesis
    by (simp add: c d e f byte_in_def)
qed

theorem execute_tool_exit_status_counterexample:
  "process_exit ex_ext_undecodable (spawned ex_world)
     (tool_args ''cc'' [''-c''] [''a.c''] (Some ''a.o'')) (child_environment None ex_world)
     = Exited 1 [CHR 0xFF, CHR 0xFE]
   \<and> fst (execute_tool ex_ext_undecodable ''cc'' [''-c''] [''a.c''] (Some ''a.o'') None ex_world)
       = Inl UnicodeDecodeError
   \<and> fst (execute_tool ex_ext_undecodable ''cc'' [''-c''] [''a.c''] (Some ''a.o'') None ex_world)
       \<noteq> Inl (ValueError (''Command '' @ [CHR 0x22] @ ''cc -c -oa.o a.c''
                @ [CHR 0x22] @ '' returned non-zero exit status 1''))"
proof -
  have a: "process_exit ex_ext_undecodable (spawned ex_world)
     (tool_args ''cc'' [''-c''] [''a.c''] (Some ''a.o'')) (child_environment None ex_world)
     = Exited 1 [CHR 0xFF, CHR 0xFE]"
    by (simp add: ex_ext_undecodable_def)
  have b: "\<not> utf8_valid [CHR 0xFF, CHR 0xFE]"
    by (simp add: byte_in_def)
  from a b show ?thesis
    by (simp add: execute_tool_unfold Let_def byte_in_def)
qed

subsection \<open>Argument vectors\<close>

text \<open>
  C2 (as amended). Every pipeline stage hands exactly one argument vector to
  \<open>subprocess.run\<close>, and it is, in order: the tool path, the fixed flags of the stage, the output flag
  \<open>-o\<close> followed directly by the output file, and then the input files, which for
  \<open>preprocess\<close>, \<open>compile\<close> and \<open>assemble\<close> are the source file followed by one \<open>-I\<close>
  flag per header directory. For \<open>link\<close> the flags are the linker flags, the script flag
  when a script is given and the map-file flags when enabled; the inputs are the object
  files.
\<close>

theorem stage_argument_vector:
  "(preprocessor_path ext t = Inr tool \<longrightarrow>
      map fst (spawned (snd (preprocess ext t source_file header_dirs out_dir w)))
        = map fst (spawned w)
            @ [[tool] @ preprocessor_flags t
                 @ [''-o'' @ path_join out_dir (snd (path_split source_file) @ ''.p'')]
                 @ [source_file] @ map (\<lambda>x. ''-I'' @ x) header_dirs])
   \<and> (compiler_path ext t = Inr tool \<longrightarrow>
      map fst (spawned (snd (compile ext t source_file header_dirs out_dir w)))
        = map fst (spawned w)
            @ [[tool] @ compiler_flags t
                 @ [''-o'' @ path_join out_dir (snd (path_split source_file) @ ''.o'')]
                 @ [source_file] @ map (\<lambda>x. ''-I'' @ x) header_dirs])
   \<and> (assembler_path ext t = Inr tool \<longrightarrow>
      map fst (spawned (snd (assemble ext t source_file header_dirs out_dir w)))
        = map fst (spawned w)
            @ [[tool] @ assembler_flags t
                 @ [''-o'' @ path_join out_dir (snd (path_split source_file) @ ''.o'')]
                 @ [source_file] @ map (\<lambda>x. ''-I'' @ x) header_dirs])
   \<and> (linker_path ext t = Inr tool \<longrightarrow>
      map fst (spawned (snd (link ext t o_files exec_path script w)))
        = map fst (spawned w)
            @ [[tool] @ linker_flags t
                 @ (case script of None \<Rightarrow> [] | Some s \<Rightarrow> [linker_script_flag (hooks t) @ s])
                 @ (if create_map_files (config t)
                    then get_linker_map_flag (hooks t) exec_path else [])
                 @ [''-o'' @ exec_path] @ o_files])"
proof (intro conjI impI)
  assume "preprocessor_path ext t = Inr tool"
  then show "map fst (spawned (snd (preprocess ext t source_file header_dirs out_dir w)))
        = map fst (spawned w)
            @ [[tool] @ preprocessor_flags t
                 @ [''-o'' @ path_join out_dir (snd (path_split source_file) @ ''.p'')]
                 @ [source_file] @ map (\<lambda>x. ''-I'' @ x) header_dirs]"
    by (simp add: preprocess_def run_stage_spawned)
next
  assume "compiler_path ext t = Inr tool"
  then show "map fst (spawned (snd (compile ext t source_file header_dirs out_dir w)))
        = map fst (spawned w)
            @ [[tool] @ compiler_flags t
                 @ [''-o'' @ path_join out_dir (snd (path_split source_file) @ ''.o'')]
                 @ [source_file] @ map (\<lambda>x. ''-I'' @ x) header_dirs]"
    by (simp add: compile_def run_stage_spawned)
next
  assume "assembler_path ext t = Inr tool"
  then show "map fst (spawned (snd (assemble ext t source_file header_dirs out_dir w)))
        = map fst (spawned w)
            @ [[tool] @ assembler_flags t
                 @ [''-o'' @ path_join out_dir (snd (path_split source_file) @ ''.o'')]
                 @ [source_file] @ map (\<lambda>x. ''-I'' @ x) header_dirs]"
    by (simp add: assemble_def run_stage_spawned)
next
  assume "linker_path ext t = Inr tool"
  then show "map fst (spawned (snd (link ext t o_files exec_path script w)))
        = map fst (spawned w)
            @ [[tool] @ linker_flags t
                 @ (case script of None \<Rightarrow> [] | Some s \<Rightarrow> [linker_script_flag (hooks t) @ s])
                 @ (if create_map_files (config t)
                    then get_linker_map_flag (hooks t) exec_path else [])
                 @ [''-o'' @ exec_path] @ o_files]"
    by (simp add: link_spawned link_flags_def)
qed


theorem stage_argument_vector_witness:
  "map fst (spawned (snd (preprocess ex_ext ex_toolchain ''src/a.c'' [''inc''] ''build'' ex_world)))
     = [[''GNU_PREPROCESSOR'', ''-obuild/a.c.p'', ''src/a.c'', ''-Iinc'']]
   \<and> map fst (spawned (snd (link ex_ext ex_toolchain [''a.o''] ''out/x'' (Some ''s.ld'') ex_world)))
     = [[''GNU_LINKER'', ''-Ts.ld'', ''-Map=out/x.map'', ''-oout/x'', ''a.o'']]"
proof -
  have m: "linker_flags ex_toolchain = []" "preprocessor_flags ex_toolchain = []"
    "linker_script_flag (hooks ex_toolchain) = ''-T''"
    "create_map_files (config ex_toolchain)"
    "get_linker_map_flag (hooks ex_toolchain) ''out/x'' = [''-Map=out/x.map'']"
    "spawned ex_world = []"
    by (simp_all add: ex_toolchain_def ex_backend_def ex_cfg_def ex_world_def)
  from stage_argument_vector
         [of ex_ext ex_toolchain "''GNU_PREPROCESSOR''" "''src/a.c''" "[''inc'']" "''build''" ex_world]
       stage_argument_vector
         [of ex_ext ex_toolchain "''GNU_LINKER''" _ _ _ ex_world "[''a.o'']" "''out/x''" "Some ''s.ld''"]
  show ?thesis
    by (simp add: ex_paths ex_out_file m)
qed

theorem stage_argument_vector_counterexample:
  "map fst (spawned (snd (preprocess ex_ext (ex_toolchain\<lparr>preprocessor_flags := [''-E'']\<rparr>)
                             ''src/a.c'' [''inc''] ''build'' ex_world)))
     = [[''GNU_PREPROCESSOR'', ''-E'', ''-obuild/a.c.p'', ''src/a.c'', ''-Iinc'']]
   \<and> map fst (spawned (snd (preprocess ex_ext (ex_toolchain\<lparr>preprocessor_flags := [''-E'']\<rparr>)
                             ''src/a.c'' [''inc''] ''build'' ex_world)))
     \<noteq> [spec_argv ''GNU_PREPROCESSOR'' [''-E''] [''inc''] [''src/a.c''] (Some ''build/a.c.p'')]"
proof -
  have p: "preprocessor_path ex_ext (ex_toolchain\<lparr>preprocessor_flags := [''-E'']\<rparr>)
             = Inr ''GNU_PREPROCESSOR''"
    by (simp add: preprocessor_path_def ex_ext_def ex_toolchain_def ex_backend_def)
  have "map fst (spawned (snd (preprocess ex_ext (ex_toolchain\<lparr>preprocessor_flags := [''-E'']\<rparr>)
                             ''src/a.c'' [''inc''] ''build'' ex_world)))
     = [[''GNU_PREPROCESSOR'', ''-E'', ''-obuild/a.c.p'', ''src/a.c'', ''-Iinc'']]"
    by (simp add: preprocess_def p run_stage_spawned ex_out_file ex_world_def)
  then show ?thesis
    by (simp add: spec_argv_def)
qed

text \<open>
  C7. The argument vector of \<open>link\<close> holds the output of the back end's map-file hook for
  the executable path exactly once when \<open>create_map_files\<close> is set and not at all
  otherwise: everything else in the vector is independent of the flag. Counted as a
  single flag that occurs nowhere else in the command line, it occurs once or zero times.
\<close>

theorem link_map_file_flag:
  assumes "linker_path ext t = Inr tool"
  shows "map fst (spawned (snd (link ext t o_files exec_path script w)))
           = map fst (spawned w)
               @ [[tool] @ linker_flags t
                    @ (case script of None \<Rightarrow> [] | Some s \<Rightarrow> [linker_script_flag (hooks t) @ s])
                    @ concat (replicate (if create_map_files (config t) then 1 else 0)
                                (get_linker_map_flag (hooks t) exec_path))
                    @ [''-o'' @ exec_path] @ o_files]
         \<and> (\<forall>f. get_linker_map_flag (hooks t) exec_path = [f]
                 \<and> f \<notin> set ([tool] @ linker_flags t
                       @ (case script of None \<Rightarrow> [] | Some s \<Rightarrow> [linker_script_flag (hooks t) @ s])
                       @ [''-o'' @ exec_path] @ o_files)
               \<longrightarrow> count_list (fst (last (spawned (snd (link ext t o_files exec_path script w))))) f
                     = (if create_map_files (config t) then 1 else 0))"
  using assms
  by (cases script) (auto simp: link_spawned link_flags_def count_list_0_iff)

theorem link_map_file_flag_witness:
  "map fst (spawned (snd (link ex_ext ex_toolchain [''a.o''] ''out/x'' (Some ''s.ld'') ex_world)))
     = [[''GNU_LINKER'', ''-Ts.ld'', ''-Map=out/x.map'', ''-oout/x'', ''a.o'']]
   \<and> count_list (fst (last (spawned (snd
         (link ex_ext ex_toolchain [''a.o''] ''out/x'' (Some ''s.ld'') ex_world)))))
       ''-Map=out/x.map'' = 1
   \<and> count_list (fst (last (spawned (snd
         (link ex_ext (ex_toolchain\<lparr>config := ex_cfg\<lparr>create_map_files := False\<rparr>\<rparr>)
            [''a.o''] ''out/x'' (Some ''s.ld'') ex_world)))))
       ''-Map=out/x.map'' = 0"
proof -
  let ?t0 = "ex_toolchain\<lparr>config := ex_cfg\<lparr>create_map_files := False\<rparr>\<rparr>"
  have m: "linker_flags ex_toolchain = []"
    "linker_script_flag (hooks ex_toolchain) = ''-T''"
    "create_map_files (config ex_toolchain)"
    "get_linker_map_flag (hooks ex_toolchain) ''out/x'' = [''-Map=out/x.map'']"
    "spawned ex_world = []"
    by (simp_all add: ex_toolchain_def ex_backend_def ex_cfg_def ex_world_def)
  have m0: "linker_flags ?t0 = []"
    "linker_script_flag (hooks ?t0) = ''-T''"
    "\<not> create_map_files (config ?t0)"
    "get_linker_map_flag (hooks ?t0) ''out/x'' = [''-Map=out/x.map'']"
    by (simp_all add: ex_toolchain_def ex_backend_def ex_cfg_def)
  have p0: "linker_path ex_ext ?t0 = Inr ''GNU_LINKER''"
    by (simp add: linker_path_def ex_ext_def ex_toolchain_def ex_backend_def)
  from link_map_file_flag [OF ex_paths(3), of "[''a.o'']" "''out/x''" "Some ''s.ld''" ex_world]
       link_map_file_flag [OF p0, of "[''a.o'']" "''out/x''" "Some ''s.ld''" ex_world]
  show ?thesis
    by (simp add: m m0)
qed

subsection \<open>Environment overlay\<close>

text \<open>
  C9. An invocation with an overlay runs its child in the ambient environment with the
  overlay's entries merged over it. The merge happens in a fresh copy: \<open>os.environ\<close>
  still refers to the same object, every dict object that existed before the call is
  unchanged, and so the ambient environment reads as before. The environment of the next
  invocation is therefore built from the original ambient environment and that
  invocation's own overlay alone.
\<close>

theorem env_overlay_single_invocation:
  assumes "os_environ w < length (heap w)"
    and "w1 = snd (execute_tool ext tool flags ins out env w)"
    and "w2 = snd (execute_tool ext tool' flags' ins' out' env' w1)"
  shows "os_environ w1 = os_environ w
       \<and> take (length (heap w)) (heap w1) = heap w
       \<and> heap w1 ! os_environ w1 = heap w ! os_environ w
       \<and> spawned w1 = spawned w @ [(tool_args tool flags ins out, child_environment env w)]
       \<and> map_of (child_environment env w)
           = map_of (heap w ! os_environ w) ++ map_of (rev (env_items env))
       \<and> spawned w2 = spawned w1 @ [(tool_args tool' flags' ins' out', child_environment env' w)]"
proof -
  have 1: "os_environ w1 = os_environ w"
    by (simp add: assms(2) execute_tool_unfold Let_def)
  have h: "heap w1 = (if env_truthy env then heap w @ [child_environment env w] else heap w)"
    by (simp add: assms(2) execute_tool_unfold Let_def)
  then have 2: "take (length (heap w)) (heap w1) = heap w"
    by simp
  from h assms(1) have 3: "heap w1 ! os_environ w1 = heap w ! os_environ w"
    by (simp add: 1 nth_append)
  have 4: "spawned w1 = spawned w @ [(tool_args tool flags ins out, child_environment env w)]"
    by (simp add: assms(2) execute_tool_unfold Let_def)
  have 5: "map_of (child_environment env w)
           = map_of (heap w ! os_environ w) ++ map_of (rev (env_items env))"
    by (cases env) (simp_all add: child_environment_def env_truthy_def env_items_def dict_update_map_of)
  have "child_environment env' w1 = child_environment env' w"
    using 1 3 by (simp add: child_environment_def)
  then have 6: "spawned w2 = spawned w1 @ [(tool_args tool' flags' ins' out', child_environment env' w)]"
    by (simp add: assms(3) execute_tool_unfold Let_def)
  from 1 2 3 4 5 6 show ?thesis by blast
qed

theorem env_overlay_single_invocation_witness:
  "spawned (snd (execute_tool ex_ext ''cc'' [''-c''] [''b.c''] (Some ''b.o'') None
             (snd (execute_tool ex_ext ''cc'' [''-c''] [''a.c''] (Some ''a.o'')
                     (Some [(''CC_OPT'', ''1''), (''PATH'', ''/opt/bin'')]) ex_world))))
     = [([''cc'', ''-c'', ''-oa.o'', ''a.c''], [(''PATH'', ''/opt/bin''), (''CC_OPT'', ''1'')]),
        ([''cc'', ''-c'', ''-ob.o'', ''b.c''], [(''PATH'', ''/bin'')])]
   \<and> heap (snd (execute_tool ex_ext ''cc'' [''-c''] [''a.c''] (Some ''a.o'')
                  (Some [(''CC_OPT'', ''1''), (''PATH'', ''/opt/bin'')]) ex_world)) ! 0
       = [(''PATH'', ''/bin'')]"
proof -
  have a: "os_environ ex_world < length (heap ex_world)"
    by (simp add: ex_world_def)
  have c: "child_environment (Some [(''CC_OPT'', ''1''), (''PATH'', ''/opt/bin'')]) ex_world
             = [(''PATH'', ''/opt/bin''), (''CC_OPT'', ''1'')]"
    "child_environment None ex_world = [(''PATH'', ''/bin'')]"
    "heap ex_world ! os_environ ex_world = [(''PATH'', ''/bin'')]"
    "heap ex_world ! 0 = [(''PATH'', ''/bin'')]"
    "os_environ ex_world = 0" "spawned ex_world = []"
    by (simp_all add: child_environment_def env_truthy_def env_items_def dict_update_def ex_world_def)
  from env_overlay_single_invocation [OF a refl refl,
         of ex_ext "''cc''" "[''-c'']" "[''a.c'']" "Some ''a.o''"
            "Some [(''CC_OPT'', ''1''), (''PATH'', ''/opt/bin'')]"
            "''cc''" "[''-c'']" "[''b.c'']" "Some ''b.o''" None]
  show ?thesis
    by (auto simp: c tool_args_def)
qed

subsection \<open>Output paths\<close>




end
